theory Spec2Isabelle
  imports Main "HOL-Library.Multiset"
begin

section \<open>Python values, exceptions and strings\<close>

text \<open>
  Values as \<^verbatim>\<open>json.loads\<close> and \<^verbatim>\<open>yaml.safe_load\<close> produce them. A float carries
  its Python \<^verbatim>\<open>repr\<close>, a date its \<^verbatim>\<open>str\<close>; a dict is an association list in
  insertion order with distinct keys. Strings are lists of code points below 256.
\<close>

datatype pyval =
    PNone
  | PBool bool
  | PInt int
  | PFloat string
  | PStr string
  | PDate string
  | PList "pyval list"
  | PDict "(pyval \<times> pyval) list"

datatype exn =
    TypeError | AttributeError | KeyError | IndexError | ValueError
  | JSONDecodeError | YAMLError | FileNotFoundError

definition try_bind :: "exn + 'a \<Rightarrow> ('a \<Rightarrow> exn + 'b) \<Rightarrow> exn + 'b" where
  "try_bind r f = (case r of Inl e \<Rightarrow> Inl e | Inr x \<Rightarrow> f x)"

text \<open>Truth value testing (\<^verbatim>\<open>if v:\<close>, \<^verbatim>\<open>not v\<close>).\<close>

fun truthy :: "pyval \<Rightarrow> bool" where
  "truthy PNone = False"
| "truthy (PBool b) = b"
| "truthy (PInt i) = (i \<noteq> 0)"
| "truthy (PFloat r) = (r \<noteq> ''0.0'' \<and> r \<noteq> ''-0.0'')"
| "truthy (PStr s) = (s \<noteq> [])"
| "truthy (PDate d) = True"
| "truthy (PList xs) = (xs \<noteq> [])"
| "truthy (PDict kvs) = (kvs \<noteq> [])"

text \<open>\<^verbatim>\<open>t in s\<close> on strings.\<close>

fun contains :: "string \<Rightarrow> string \<Rightarrow> bool" where
  "contains t [] = (t = [])"
| "contains t (c # cs) = (take (length t) (c # cs) = t \<or> contains t cs)"

text \<open>\<^verbatim>\<open>key in v\<close>, \<^verbatim>\<open>v[key]\<close> and \<^verbatim>\<open>v.get(key, default)\<close> for a string key.\<close>

fun str_in :: "string \<Rightarrow> pyval \<Rightarrow> exn + bool" where
  "str_in k (PDict kvs) = Inr (map_of kvs (PStr k) \<noteq> None)"
| "str_in k (PList xs) = Inr (PStr k \<in> set xs)"
| "str_in k (PStr s) = Inr (contains k s)"
| "str_in k _ = Inl TypeError"

fun getitem_str :: "pyval \<Rightarrow> string \<Rightarrow> exn + pyval" where
  "getitem_str (PDict kvs) k =
     (case map_of kvs (PStr k) of None \<Rightarrow> Inl KeyError | Some v \<Rightarrow> Inr v)"
| "getitem_str _ k = Inl TypeError"

fun get_str :: "pyval \<Rightarrow> string \<Rightarrow> pyval \<Rightarrow> exn + pyval" where
  "get_str (PDict kvs) k d = Inr (case map_of kvs (PStr k) of None \<Rightarrow> d | Some v \<Rightarrow> v)"
| "get_str _ k d = Inl AttributeError"

text \<open>\<^verbatim>\<open>v[i]\<close> for a literal index \<open>i \<ge> 0\<close>, and \<^verbatim>\<open>len(v)\<close>.\<close>

fun getitem_int :: "pyval \<Rightarrow> nat \<Rightarrow> exn + pyval" where
  "getitem_int (PList xs) i = (if i < length xs then Inr (xs ! i) else Inl IndexError)"
| "getitem_int (PStr s) i = (if i < length s then Inr (PStr [s ! i]) else Inl IndexError)"
| "getitem_int (PDict kvs) i =
     (case map_of kvs (PInt (int i)) of None \<Rightarrow> Inl KeyError | Some v \<Rightarrow> Inr v)"
| "getitem_int _ i = Inl TypeError"

fun py_len :: "pyval \<Rightarrow> exn + nat" where
  "py_len (PList xs) = Inr (length xs)"
| "py_len (PStr s) = Inr (length s)"
| "py_len (PDict kvs) = Inr (length kvs)"
| "py_len _ = Inl TypeError"

subsection \<open>Decimal rendering\<close>

definition digit_chr :: "nat \<Rightarrow> char" where
  "digit_chr n = ''0123456789'' ! n"

fun str_nat :: "nat \<Rightarrow> string" where
  "str_nat n = (if n < 10 then [digit_chr n] else str_nat (n div 10) @ [digit_chr (n mod 10)])"

declare str_nat.simps [simp del]

definition str_int :: "int \<Rightarrow> string" where
  "str_int i = (if i < 0 then ''-'' @ str_nat (nat (- i)) else str_nat (nat i))"

text \<open>\<^verbatim>\<open>format(i, '02d')\<close>: sign-aware zero padding to width two.\<close>

definition format_02d_int :: "int \<Rightarrow> string" where
  "format_02d_int i =
     (if i < 0 then str_int i else if i < 10 then ''0'' @ str_int i else str_int i)"

subsection \<open>Character classes and stripping\<close>

text \<open>\<^verbatim>\<open>\d\<close> and \<^verbatim>\<open>\s\<close> of \<^verbatim>\<open>re\<close> on \<^verbatim>\<open>str\<close> patterns, for code points below 256.\<close>

definition is_digit :: "char \<Rightarrow> bool" where
  "is_digit c = (c \<in> set ''0123456789'')"

definition is_space :: "char \<Rightarrow> bool" where
  "is_space c = (c \<in> set [CHR 0x09, CHR 0x0A, CHR 0x0B, CHR 0x0C, CHR 0x0D,
       CHR 0x1C, CHR 0x1D, CHR 0x1E, CHR 0x1F, CHR 0x20, CHR 0x85, CHR 0xA0])"

definition strip :: "string \<Rightarrow> string" where
  "strip s = dropWhile is_space (rev (dropWhile is_space (rev s)))"

section \<open>Library and network interfaces\<close>

text \<open>
  A parsed page: text strings and tags with their name, attributes and contents. Comments
  and other nodes that are neither tags nor text that \<^verbatim>\<open>get_text\<close> returns are left out.
\<close>

datatype node = Text string | Tag string "(string \<times> string) list" "node list"

text \<open>
  What the scripts use of their libraries is a parameter of the model:
  \<^verbatim>\<open>json.loads\<close> and \<^verbatim>\<open>yaml.safe_load\<close> (\<open>Inl\<close> the exception when they raise),
  \<^verbatim>\<open>json.dumps\<close>, \<^verbatim>\<open>str\<close> of a list or dict, the HTML parser behind
  \<^verbatim>\<open>BeautifulSoup(text, 'html.parser')\<close> (the top-level nodes of the page) and
  \<^verbatim>\<open>soup.select_one(selector)\<close>.
\<close>

record lib =
  json_loads :: "string \<Rightarrow> exn + pyval"
  json_dumps :: "pyval \<Rightarrow> string"
  container_str :: "pyval \<Rightarrow> string"
  yaml_safe_load :: "string \<Rightarrow> exn + pyval"
  html_parser :: "string \<Rightarrow> node list"
  select_one :: "node list \<Rightarrow> string \<Rightarrow> node option"

text \<open>\<^verbatim>\<open>requests.get\<close>: an exception, or a response with status code and text.\<close>

datatype http_result = RequestFailed | Response nat string

text \<open>\<^verbatim>\<open>str(v)\<close>, as an f-string placeholder without format spec renders \<open>v\<close>.\<close>

fun py_str :: "lib \<Rightarrow> pyval \<Rightarrow> string" where
  "py_str L PNone = ''None''"
| "py_str L (PBool b) = (if b then ''True'' else ''False'')"
| "py_str L (PInt i) = str_int i"
| "py_str L (PFloat r) = r"
| "py_str L (PStr s) = s"
| "py_str L (PDate d) = d"
| "py_str L v = container_str L v"

text \<open>An f-string placeholder \<^verbatim>\<open>{v:02d}\<close>.\<close>

fun format_02d :: "pyval \<Rightarrow> exn + string" where
  "format_02d (PInt i) = Inr (format_02d_int i)"
| "format_02d (PBool b) = Inr (format_02d_int (if b then 1 else 0))"
| "format_02d (PFloat r) = Inl ValueError"
| "format_02d (PStr s) = Inl ValueError"
| "format_02d (PDate d) = Inr ''02d''"
| "format_02d _ = Inl TypeError"

section \<open>add\_dates.py\<close>

subsection \<open>get\_date\_from\_crossref\<close>

definition DATE_FIELDS :: "string list" where
  "DATE_FIELDS = [''published'', ''issued'', ''published-online'', ''created'']"

text \<open>The \<^verbatim>\<open>if/elif\<close> chain on \<^verbatim>\<open>len(date_parts)\<close>; \<open>Inr None\<close> when no branch returns.\<close>

definition format_date_parts :: "lib \<Rightarrow> pyval \<Rightarrow> exn + string option" where
  "format_date_parts L date_parts =
     try_bind (py_len date_parts) (\<lambda>n.
       if n \<ge> 3 then
         try_bind (getitem_int date_parts 0) (\<lambda>y.
         try_bind (getitem_int date_parts 1) (\<lambda>m.
         try_bind (format_02d m) (\<lambda>mm.
         try_bind (getitem_int date_parts 2) (\<lambda>d.
         try_bind (format_02d d) (\<lambda>dd.
           Inr (Some (py_str L y @ ''-'' @ mm @ ''-'' @ dd)))))))
       else if n \<ge> 2 then
         try_bind (getitem_int date_parts 0) (\<lambda>y.
         try_bind (getitem_int date_parts 1) (\<lambda>m.
         try_bind (format_02d m) (\<lambda>mm.
           Inr (Some (py_str L y @ ''-'' @ mm @ ''-01'')))))
       else if n \<ge> 1 then
         try_bind (getitem_int date_parts 0) (\<lambda>y.
           Inr (Some (py_str L y @ ''-01-01'')))
       else Inr None)"

text \<open>The loop over the date fields; an exception leaves the loop.\<close>

fun crossref_fields :: "lib \<Rightarrow> pyval \<Rightarrow> string list \<Rightarrow> exn + string option" where
  "crossref_fields L message [] = Inr None"
| "crossref_fields L message (field # rest) =
     try_bind (str_in field message) (\<lambda>present.
       if present then
         try_bind (getitem_str message field) (\<lambda>v.
         try_bind (get_str v ''date-parts'' (PList [PList []])) (\<lambda>dp.
         try_bind (getitem_int dp 0) (\<lambda>date_parts.
         try_bind (format_date_parts L date_parts) (\<lambda>r.
           case r of Some s \<Rightarrow> Inr (Some s)
                   | None \<Rightarrow> crossref_fields L message rest))))
       else crossref_fields L message rest)"

definition get_date_from_crossref :: "lib \<Rightarrow> (string \<Rightarrow> http_result) \<Rightarrow> string \<Rightarrow> string option" where
  "get_date_from_crossref L requests_get doi =
     (case requests_get (''https://api.crossref.org/works/'' @ doi) of
        RequestFailed \<Rightarrow> None
      | Response status_code body \<Rightarrow>
          if status_code = 200 then
            (case try_bind (json_loads L body) (\<lambda>data.
                  try_bind (get_str data ''message'' (PDict [])) (\<lambda>message.
                    crossref_fields L message DATE_FIELDS)) of
               Inl e \<Rightarrow> None
             | Inr r \<Rightarrow> r)
          else None)"




subsection \<open>Regular expressions\<close>

text \<open>
  \<^verbatim>\<open>re.search\<close> tries the pattern at every position from the left; each pattern is a
  function that matches at the start of its argument. None of the patterns of the two
  scripts can gain a match by giving characters back, so each is written as its greedy
  match.
\<close>

fun re_search :: "(string \<Rightarrow> 'a option) \<Rightarrow> string \<Rightarrow> 'a option" where
  "re_search pat [] = pat []"
| "re_search pat (c # cs) =
     (case pat (c # cs) of Some r \<Rightarrow> Some r | None \<Rightarrow> re_search pat cs)"

text \<open>A literal at the start of the text: what follows it.\<close>

fun literal :: "string \<Rightarrow> string \<Rightarrow> string option" where
  "literal [] s = Some s"
| "literal (p # ps) [] = None"
| "literal (p # ps) (c # cs) = (if p = c then literal ps cs else None)"

text \<open>\<^verbatim>\<open>(10\.1002/14651858\.CD\d+(?:\.pub\d+)?)\<close>, group 1.\<close>

definition cochrane_doi_pattern :: "string \<Rightarrow> string option" where
  "cochrane_doi_pattern s =
     (case literal ''10.1002/14651858.CD'' s of
        None \<Rightarrow> None
      | Some r \<Rightarrow>
          if takeWhile is_digit r = [] then None
          else Some (''10.1002/14651858.CD'' @ takeWhile is_digit r @
            (case literal ''.pub'' (dropWhile is_digit r) of
               None \<Rightarrow> []
             | Some r' \<Rightarrow>
                 if takeWhile is_digit r' = [] then []
                 else ''.pub'' @ takeWhile is_digit r')))"

text \<open>\<^verbatim>\<open>doi/(10\.[^/]+/[^/]+)\<close>, group 1.\<close>

definition doi_path_pattern :: "string \<Rightarrow> string option" where
  "doi_path_pattern s =
     (case literal ''doi/10.'' s of
        None \<Rightarrow> None
      | Some r \<Rightarrow>
          if takeWhile (\<lambda>c. c \<noteq> CHR ''/'') r = [] then None
          else (case dropWhile (\<lambda>c. c \<noteq> CHR ''/'') r of
                  [] \<Rightarrow> None
                | slash # r' \<Rightarrow>
                    if takeWhile (\<lambda>c. c \<noteq> CHR ''/'') r' = [] then None
                    else Some (''10.'' @ takeWhile (\<lambda>c. c \<noteq> CHR ''/'') r @ ''/'' @
                               takeWhile (\<lambda>c. c \<noteq> CHR ''/'') r')))"

text \<open>\<^verbatim>\<open>(CD\d+)\<close> with \<^verbatim>\<open>re.IGNORECASE\<close>, group 1.\<close>

definition cd_nocase_pattern :: "string \<Rightarrow> string option" where
  "cd_nocase_pattern s =
     (case s of
        c # d # r \<Rightarrow>
          if (c = CHR ''C'' \<or> c = CHR ''c'') \<and> (d = CHR ''D'' \<or> d = CHR ''d'')
             \<and> takeWhile is_digit r \<noteq> []
          then Some (c # d # takeWhile is_digit r) else None
      | _ \<Rightarrow> None)"

text \<open>\<^verbatim>\<open>"datePublished"\s*:\s*"([^"]+)"\<close>, group 1.\<close>

definition date_published_pattern :: "string \<Rightarrow> string option" where
  \<open>date_published_pattern s =
     (case literal ''"datePublished"'' s of
        None \<Rightarrow> None
      | Some r \<Rightarrow>
          (case literal '':'' (dropWhile is_space r) of
             None \<Rightarrow> None
           | Some r1 \<Rightarrow>
               (case literal ''"'' (dropWhile is_space r1) of
                  None \<Rightarrow> None
                | Some r2 \<Rightarrow>
                    if takeWhile (\<lambda>c. c \<noteq> CHR ''"'') r2 = [] then None
                    else (case dropWhile (\<lambda>c. c \<noteq> CHR ''"'') r2 of
                            [] \<Rightarrow> None
                          | quote # r3 \<Rightarrow> Some (takeWhile (\<lambda>c. c \<noteq> CHR ''"'') r2)))))\<close>

text \<open>
  \<^verbatim>\<open>re.match(r'(\d{4})-(\d{2})-(\d{2})', s)\<close>, rendered as the source renders its
  three groups: \<^verbatim>\<open>f"{g1}-{g2}-{g3}"\<close>.
\<close>

definition iso_date_pattern :: "string \<Rightarrow> string option" where
  "iso_date_pattern s =
     (if 10 \<le> length s \<and> list_all is_digit (take 4 s) \<and> s ! 4 = CHR ''-''
         \<and> list_all is_digit (take 2 (drop 5 s)) \<and> s ! 7 = CHR ''-''
         \<and> list_all is_digit (take 2 (drop 8 s))
      then Some (take 4 s @ ''-'' @ take 2 (drop 5 s) @ ''-'' @ take 2 (drop 8 s))
      else None)"

text \<open>\<^verbatim>\<open>str.upper\<close> on the letters a to z.\<close>

definition upper_chr :: "char \<Rightarrow> char" where
  "upper_chr c =
     (case map_of (zip ''abcdefghijklmnopqrstuvwxyz'' ''ABCDEFGHIJKLMNOPQRSTUVWXYZ'') c of
        None \<Rightarrow> c | Some u \<Rightarrow> u)"

subsection \<open>extract\_doi, extract\_cd\_number\<close>

definition extract_doi :: "string \<Rightarrow> string option" where
  "extract_doi url =
     (case re_search cochrane_doi_pattern url of
        Some m \<Rightarrow> Some m
      | None \<Rightarrow> re_search doi_path_pattern url)"

text \<open>The match holds the two letters and ASCII digits only, which is all \<^verbatim>\<open>upper\<close> sees.\<close>

definition extract_cd_number :: "string \<Rightarrow> string option" where
  "extract_cd_number url = map_option (map upper_chr) (re_search cd_nocase_pattern url)"

subsection \<open>get\_date\_from\_cochrane\_page\<close>

definition get_date_from_cochrane_page :: "(string \<Rightarrow> http_result) \<Rightarrow> string \<Rightarrow> string option" where
  "get_date_from_cochrane_page requests_get cd_number =
     (case requests_get (''https://www.cochrane.org/'' @ cd_number) of
        RequestFailed \<Rightarrow> None
      | Response status_code body \<Rightarrow>
          if status_code = 200 then
            (case re_search date_published_pattern body of
               None \<Rightarrow> None
             | Some date_str \<Rightarrow> iso_date_pattern date_str)
          else None)"

subsection \<open>get\_date\_for\_entry\<close>

text \<open>
  What a task does to the outside, in order: the requests it sends and the delays it
  sleeps. \<^verbatim>\<open>get_date_from_crossref\<close> and \<^verbatim>\<open>get_date_from_cochrane_page\<close> send one
  request each, as their first statement.
\<close>

datatype delay = CROSSREF_DELAY | COCHRANE_DELAY

datatype event = HttpGet string | Sleep delay | ParseFeed string | CallClaude string nat

text \<open>\<^verbatim>\<open>if x:\<close> on an optional string: \<^verbatim>\<open>None\<close> and the empty string fail the test.\<close>

definition if_truthy :: "string option \<Rightarrow> string option" where
  "if_truthy x = (case x of None \<Rightarrow> None | Some s \<Rightarrow> if s = [] then None else Some s)"

text \<open>
  The result is the events of the task and what it returns or raises; a returned
  \<^verbatim>\<open>None\<close> is \<open>PNone\<close>. \<^verbatim>\<open>re.search\<close> raises \<^verbatim>\<open>TypeError\<close> on a url that is no string.
\<close>

definition get_date_for_entry ::
  "lib \<Rightarrow> (string \<Rightarrow> http_result) \<Rightarrow> pyval \<Rightarrow> nat \<Rightarrow> event list \<times> (exn + nat \<times> pyval)" where
  "get_date_for_entry L requests_get entry index =
     (case get_str entry ''url'' (PStr []) of
        Inl e \<Rightarrow> ([], Inl e)
      | Inr url \<Rightarrow>
     (case get_str entry ''date'' PNone of
        Inl e \<Rightarrow> ([], Inl e)
      | Inr dt \<Rightarrow>
          if truthy dt then ([], Inr (index, dt))
          else
     (case url of
        PStr u \<Rightarrow>
          (let (ev, found) =
             (case if_truthy (extract_doi u) of
                None \<Rightarrow> ([], None)
              | Some doi \<Rightarrow>
                  (case if_truthy (get_date_from_crossref L requests_get doi) of
                     Some date \<Rightarrow> ([HttpGet (''https://api.crossref.org/works/'' @ doi)], Some date)
                   | None \<Rightarrow> ([HttpGet (''https://api.crossref.org/works/'' @ doi),
                                Sleep CROSSREF_DELAY], None)))
           in case found of
                Some date \<Rightarrow> (ev, Inr (index, PStr date))
              | None \<Rightarrow>
                  (case if_truthy (extract_cd_number u) of
                     None \<Rightarrow> (ev, Inr (index, PNone))
                   | Some cd_number \<Rightarrow>
                       (ev @ [Sleep COCHRANE_DELAY, HttpGet (''https://www.cochrane.org/'' @ cd_number)],
                        Inr (index,
                          case if_truthy (get_date_from_cochrane_page requests_get cd_number) of
                            Some date \<Rightarrow> PStr date
                          | None \<Rightarrow> PNone))))
      | _ \<Rightarrow> ([], Inl TypeError))))"

subsection \<open>main\<close>

text \<open>\<^verbatim>\<open>for s in v\<close>: the elements a loop over \<open>v\<close> visits.\<close>

fun py_iter :: "pyval \<Rightarrow> exn + pyval list" where
  "py_iter (PList xs) = Inr xs"
| "py_iter (PStr s) = Inr (map (\<lambda>c. PStr [c]) s)"
| "py_iter (PDict kvs) = Inr (map fst kvs)"
| "py_iter _ = Inl TypeError"

text \<open>
  The positions and entries with \<^verbatim>\<open>not s.get("date")\<close>, in order. The source computes
  this twice, for the count and for the tasks it submits.
\<close>

fun dateless :: "(nat \<times> pyval) list \<Rightarrow> exn + (nat \<times> pyval) list" where
  "dateless [] = Inr []"
| "dateless ((i, s) # rest) =
     try_bind (get_str s ''date'' PNone) (\<lambda>d.
     try_bind (dateless rest) (\<lambda>r.
       Inr (if truthy d then r else (i, s) # r)))"

text \<open>\<^verbatim>\<open>d[k] = v\<close>: an existing key keeps its place, a new key goes last.\<close>

fun dict_set :: "pyval \<Rightarrow> pyval \<Rightarrow> (pyval \<times> pyval) list \<Rightarrow> (pyval \<times> pyval) list" where
  "dict_set k v [] = [(k, v)]"
| "dict_set k v ((k', v') # kvs) =
     (if k' = k then (k', v) # kvs else (k', v') # dict_set k v kvs)"

text \<open>\<^verbatim>\<open>summaries[index]["date"] = date\<close>.\<close>

fun set_date :: "pyval \<Rightarrow> nat \<Rightarrow> pyval \<Rightarrow> exn + pyval" where
  "set_date (PList es) index date =
     (if index < length es then
        (case es ! index of
           PDict kvs \<Rightarrow> Inr (PList (es[index := PDict (dict_set (PStr ''date'') date kvs)]))
         | _ \<Rightarrow> Inl TypeError)
      else Inl IndexError)"
| "set_date (PDict kvs) index date = Inl KeyError"
| "set_date _ index date = Inl TypeError"

text \<open>
  A finished task: its events and what \<^verbatim>\<open>future.result()\<close> gives. The loop over
  \<^verbatim>\<open>as_completed(futures)\<close> takes the futures in the order they complete. A task
  reads its own entry only, which the loop writes to after that task has completed.
\<close>

type_synonym future = "event list \<times> (exn + nat \<times> pyval)"

fun merge_completed :: "future list \<Rightarrow> pyval \<Rightarrow> exn + pyval" where
  "merge_completed [] summaries = Inr summaries"
| "merge_completed (future # rest) summaries =
     (case snd future of
        Inl e \<Rightarrow> Inl e
      | Inr (index, date) \<Rightarrow>
          if truthy date then try_bind (set_date summaries index date) (merge_completed rest)
          else merge_completed rest summaries)"

text \<open>
  A run either ends in an uncaught exception or returns; \<open>Returned (Some v)\<close> when it
  has written \<^verbatim>\<open>yaml.dump(v)\<close> to the store, \<open>Returned None\<close> when it has left the store
  alone. The arguments: the network as each task sees it, the order in which the futures
  complete, and what opening and \<^verbatim>\<open>yaml.safe_load\<close> of the store gave.
\<close>

datatype run = Raised exn | Returned "pyval option"

definition main_add_dates ::
  "lib \<Rightarrow> (nat \<Rightarrow> string \<Rightarrow> http_result) \<Rightarrow> (future list \<Rightarrow> future list) \<Rightarrow> exn + pyval \<Rightarrow> run" where
  "main_add_dates L net as_completed loaded =
     (case loaded of
        Inl e \<Rightarrow> Raised e
      | Inr summaries \<Rightarrow>
          if \<not> truthy summaries then Returned None
          else
            (case try_bind (py_len summaries) (\<lambda>total.
                  try_bind (py_iter summaries) (\<lambda>entries.
                    dateless (enumerate 0 entries))) of
               Inl e \<Rightarrow> Raised e
             | Inr pending \<Rightarrow>
                 if length pending = 0 then Returned None
                 else
                   (case merge_completed
                           (as_completed
                              (map (\<lambda>(i, entry). get_date_for_entry L (net i) entry i) pending))
                           summaries of
                      Inl e \<Rightarrow> Raised e
                    | Inr summaries' \<Rightarrow> Returned (Some summaries'))))"

text \<open>
  What the backfill is to make of one entry: an entry with a date, or whose task found
  none, stays; otherwise the date its task found is stored under \<^verbatim>\<open>date\<close>.
\<close>

definition entry_date :: "pyval \<Rightarrow> pyval" where
  "entry_date entry =
     (case entry of
        PDict kvs \<Rightarrow> (case map_of kvs (PStr ''date'') of None \<Rightarrow> PNone | Some v \<Rightarrow> v)
      | _ \<Rightarrow> PNone)"

definition backfilled :: "lib \<Rightarrow> (nat \<Rightarrow> string \<Rightarrow> http_result) \<Rightarrow> nat \<times> pyval \<Rightarrow> pyval" where
  "backfilled L net ie =
     (case ie of (i, entry) \<Rightarrow>
        (case entry of
           PDict kvs \<Rightarrow>
             if truthy (entry_date entry) then entry
             else (case snd (get_date_for_entry L (net i) entry i) of
                     Inl e \<Rightarrow> entry
                   | Inr (j, date) \<Rightarrow>
                       if truthy date then PDict (dict_set (PStr ''date'') date kvs) else entry)
         | _ \<Rightarrow> entry))"

text \<open>The fields of a record other than \<^verbatim>\<open>date\<close>, in order.\<close>

definition other_fields :: "pyval \<Rightarrow> (pyval \<times> pyval) list" where
  "other_fields entry =
     (case entry of PDict kvs \<Rightarrow> filter (\<lambda>kv. fst kv \<noteq> PStr ''date'') kvs | _ \<Rightarrow> [])"

text \<open>A record as the store holds it: a mapping whose \<^verbatim>\<open>url\<close>, when it has one, is a string.\<close>

definition record_entry :: "pyval \<Rightarrow> bool" where
  "record_entry entry =
     (case entry of
        PDict kvs \<Rightarrow>
          (case map_of kvs (PStr ''url'') of
             None \<Rightarrow> True
           | Some (PStr u) \<Rightarrow> True
           | Some other \<Rightarrow> False)
      | _ \<Rightarrow> False)"

text \<open>
  \<open>keeps e e'\<close>: the record \<open>e'\<close> is a mapping with the fields of \<open>e\<close> other than
  \<^verbatim>\<open>date\<close>, in the same order, and is \<open>e\<close> itself when \<open>e\<close> had a date.
\<close>

definition keeps :: "pyval \<Rightarrow> pyval \<Rightarrow> bool" where
  "keeps e e' =
     ((case e' of PDict kvs \<Rightarrow> True | _ \<Rightarrow> False)
      \<and> other_fields e' = other_fields e
      \<and> (truthy (entry_date e) \<longrightarrow> e' = e))"

text \<open>The index a finished task reports.\<close>

definition idx :: "future \<Rightarrow> nat" where
  "idx f = (case snd f of Inl e \<Rightarrow> 0 | Inr (i, d) \<Rightarrow> i)"

section \<open>update\_cochrane.py\<close>

subsection \<open>Text of a page\<close>

text \<open>\<^verbatim>\<open>sep.join(parts)\<close>.\<close>

fun join :: "string \<Rightarrow> string list \<Rightarrow> string" where
  "join sep [] = []"
| "join sep [x] = x"
| "join sep (x # y # ys) = x @ sep @ join sep (y # ys)"

text \<open>\<^verbatim>\<open>str.lower\<close> on code points below 256: A to Z and the accented capitals.\<close>

definition lower_chr :: "char \<Rightarrow> char" where
  "lower_chr c =
     (let n = (of_char c :: nat)
      in if (65 \<le> n \<and> n \<le> 90) \<or> (192 \<le> n \<and> n \<le> 222 \<and> n \<noteq> 215)
         then char_of (n + 32) else c)"

text \<open>The text strings below a node, in document order.\<close>

fun strings :: "node \<Rightarrow> string list" where
  "strings (Text s) = [s]"
| "strings (Tag name attrs contents) = concat (map strings contents)"

text \<open>\<^verbatim>\<open>tag.get_text()\<close> and \<^verbatim>\<open>tag.get_text(strip=True)\<close>.\<close>

definition get_text :: "node \<Rightarrow> string" where
  "get_text t = concat (strings t)"

definition get_text_strip :: "node \<Rightarrow> string" where
  "get_text_strip t = concat (filter (\<lambda>s. s \<noteq> []) (map strip (strings t)))"

fun is_tag :: "node \<Rightarrow> bool" where
  "is_tag (Text s) = False"
| "is_tag (Tag name attrs contents) = True"

fun tag_name :: "node \<Rightarrow> string" where
  "tag_name (Text s) = []"
| "tag_name (Tag name attrs contents) = name"

fun tag_contents :: "node \<Rightarrow> node list" where
  "tag_contents (Text s) = []"
| "tag_contents (Tag name attrs contents) = contents"

text \<open>
  \<^verbatim>\<open>soup.find_all(names)\<close>: the tags with one of the names, in document order, each
  with the nodes that follow it under its parent (for \<^verbatim>\<open>find_next_siblings\<close>).
\<close>

fun find_all :: "string list \<Rightarrow> node list \<Rightarrow> (node \<times> node list) list" where
  "find_all names [] = []"
| "find_all names (Text s # ns) = find_all names ns"
| "find_all names (Tag name attrs contents # ns) =
     (if name \<in> set names then [(Tag name attrs contents, ns)] else [])
     @ find_all names contents @ find_all names ns"

subsection \<open>fetch\_plain\_language\_summary\<close>

definition SELECTORS :: "string list" where
  \<open>SELECTORS = [''.pls-section'', ''#pls'', ''[data-section="pls"]'', ''.plain-language-summary'']\<close>

definition HEADINGS :: "string list" where
  "HEADINGS = [''h2'', ''h3'', ''h4'']"

text \<open>The loop over the selectors: the first one that selects a tag.\<close>

fun select_first :: "lib \<Rightarrow> node list \<Rightarrow> string list \<Rightarrow> node option" where
  "select_first L soup [] = None"
| "select_first L soup (selector # rest) =
     (case select_one L soup selector of
        Some t \<Rightarrow> Some t
      | None \<Rightarrow> select_first L soup rest)"

text \<open>
  The inner loop over \<^verbatim>\<open>header.find_next_siblings()\<close>: the following sibling tags up to
  the first one named h2, h3 or h4, each as its stripped text.
\<close>

definition content_parts :: "node list \<Rightarrow> string list" where
  "content_parts following =
     map get_text_strip (takeWhile (\<lambda>t. tag_name t \<notin> set HEADINGS) (filter is_tag following))"

text \<open>The loop over the headers; it returns at the first header with content parts.\<close>

fun heading_fallback :: "(node \<times> node list) list \<Rightarrow> string option" where
  "heading_fallback [] = None"
| "heading_fallback ((header, following) # rest) =
     (if contains ''plain language'' (map lower_chr (get_text header))
         \<and> content_parts following \<noteq> []
      then Some (join ''\<newline>\<newline>'' (content_parts following))
      else heading_fallback rest)"

text \<open>\<^verbatim>\<open>soup.find(name)\<close>: the first tag of that name.\<close>

definition find_tag :: "string \<Rightarrow> node list \<Rightarrow> node option" where
  "find_tag name soup = (case find_all [name] soup of [] \<Rightarrow> None | (t, following) # rest \<Rightarrow> Some t)"

text \<open>The body of the \<^verbatim>\<open>try\<close> block, from the parsed page to the value returned.\<close>

definition extract_summary :: "lib \<Rightarrow> node list \<Rightarrow> string option" where
  "extract_summary L soup =
     (case select_first L soup SELECTORS of
        Some pls_section \<Rightarrow> Some (get_text_strip pls_section)
      | None \<Rightarrow>
          (case heading_fallback (find_all HEADINGS soup) of
             Some summary \<Rightarrow> Some summary
           | None \<Rightarrow>
               (case (case find_tag ''article'' soup of
                        Some t \<Rightarrow> Some t
                      | None \<Rightarrow> find_tag ''main'' soup) of
                  None \<Rightarrow> None
                | Some article \<Rightarrow>
                    (case take 5 (map fst (find_all [''p''] (tag_contents article))) of
                       [] \<Rightarrow> None
                     | paragraphs \<Rightarrow> Some (join ''\<newline>\<newline>'' (map get_text_strip paragraphs))))))"

subsection \<open>Patterns and string operations\<close>

text \<open>\<^verbatim>\<open>\{[^{}]*\}\<close>: the match.\<close>

definition json_object_pattern :: "string \<Rightarrow> string option" where
  "json_object_pattern s =
     (case literal ''{'' s of
        None \<Rightarrow> None
      | Some r \<Rightarrow>
          (case literal ''}'' (dropWhile (\<lambda>c. c \<noteq> CHR ''{'' \<and> c \<noteq> CHR ''}'') r) of
             None \<Rightarrow> None
           | Some r' \<Rightarrow> Some (''{'' @ takeWhile (\<lambda>c. c \<noteq> CHR ''{'' \<and> c \<noteq> CHR ''}'') r @ ''}'')))"

text \<open>\<^verbatim>\<open>CD\d+\<close>: the match.\<close>

definition cd_pattern :: "string \<Rightarrow> string option" where
  "cd_pattern s =
     (case literal ''CD'' s of
        None \<Rightarrow> None
      | Some r \<Rightarrow> if takeWhile is_digit r = [] then None else Some (''CD'' @ takeWhile is_digit r))"

text \<open>
  \<^verbatim>\<open>re.findall\<close> for a pattern whose matches are not empty: the matches from left to
  right, each search resuming where the last match ended.
\<close>

fun re_findall :: "(string \<Rightarrow> string option) \<Rightarrow> string \<Rightarrow> string list" where
  "re_findall pat [] = []"
| "re_findall pat (c # cs) =
     (case pat (c # cs) of
        None \<Rightarrow> re_findall pat cs
      | Some m \<Rightarrow> m # re_findall pat (drop (length m - 1) cs))"

text \<open>\<^verbatim>\<open>s.replace(old, new)\<close> for a placeholder \<open>old\<close> that is not empty.\<close>

fun replace :: "string \<Rightarrow> string \<Rightarrow> string \<Rightarrow> string" where
  "replace old new [] = []"
| "replace old new (c # cs) =
     (if old \<noteq> [] \<and> take (length old) (c # cs) = old
      then new @ replace old new (drop (length old - 1) cs)
      else c # replace old new cs)"

subsection \<open>The outside of the acquisition run\<close>

text \<open>
  The feed, the web and the language model answer as a function of what the run has
  done so far, so the same request may be answered differently later. The feed gives its
  entries (link and title, when present) or fails; the model gives the text of its reply,
  or nothing when the call raises, which \<^verbatim>\<open>call_claude\<close> turns into \<^verbatim>\<open>None\<close>.
\<close>

datatype feed_entry = FeedEntry (entry_link: "string option") (entry_title: "string option")

datatype feed_result = FeedFailed | Feed "feed_entry list"

record world =
  rss :: "event list \<Rightarrow> feed_result"
  web :: "event list \<Rightarrow> string \<Rightarrow> http_result"
  model :: "event list \<Rightarrow> string \<Rightarrow> nat \<Rightarrow> string option"

text \<open>
  The files of the repository the run opens, each as the text that reading it gives;
  \<open>None\<close> when a file does not exist. What the run appends is read back as written.
\<close>

record files =
  summaries_yml :: "string option"
  summarize_prompt :: "string option"
  enrichment_prompt :: "string option"

subsection \<open>call\_claude, summarize\_review\<close>

definition call_claude :: "world \<Rightarrow> string \<Rightarrow> nat \<Rightarrow> event list \<Rightarrow> string option \<times> event list" where
  "call_claude W prompt max_tokens log =
     (model W log prompt max_tokens, log @ [CallClaude prompt max_tokens])"

text \<open>
  What \<^verbatim>\<open>summarize_review\<close> does with the reply. Only \<^verbatim>\<open>JSONDecodeError\<close> is caught;
  \<^verbatim>\<open>result.get\<close> raises on a decoded value that is no dict.
\<close>

definition parse_summary :: "lib \<Rightarrow> string option \<Rightarrow> exn + pyval option" where
  "parse_summary L response =
     (case if_truthy response of
        None \<Rightarrow> Inr None
      | Some reply \<Rightarrow>
          (case re_search json_object_pattern reply of
             None \<Rightarrow> Inr None
           | Some json_match \<Rightarrow>
               (case json_loads L json_match of
                  Inl e \<Rightarrow> if e = JSONDecodeError then Inr None else Inl e
                | Inr result \<Rightarrow>
                    try_bind (get_str result ''skip'' PNone) (\<lambda>skip.
                      if truthy skip then Inr None else Inr (Some result)))))"

definition summarize_review ::
  "lib \<Rightarrow> world \<Rightarrow> files \<Rightarrow> string \<Rightarrow> event list \<Rightarrow> (exn + pyval option) \<times> event list" where
  "summarize_review L W F plain_language_summary log =
     (case summarize_prompt F of
        None \<Rightarrow> (Inl FileNotFoundError, log)
      | Some prompt_template \<Rightarrow>
          (case call_claude W
                  (replace ''{plain_language_summary}'' plain_language_summary prompt_template)
                  500 log of
             (response, log') \<Rightarrow> (parse_summary L response, log')))"

subsection \<open>Discovery\<close>

definition RSS_URL :: string where
  "RSS_URL = ''https://www.cochranelibrary.com/cdsr/table-of-contents/rss.xml''"

definition NEWS_URL :: string where
  "NEWS_URL = ''https://www.cochrane.org/news''"

definition COCHRANE_BASE_URL :: string where
  "COCHRANE_BASE_URL = ''https://www.cochrane.org''"

text \<open>A candidate review: the dict with keys \<^verbatim>\<open>cd_number\<close>, \<^verbatim>\<open>url\<close> and \<^verbatim>\<open>title\<close>.\<close>

datatype review = Review (cd_number: string) (url: string) (title: string)

text \<open>
  One feed entry: a review when its link (the empty string when it has none) holds a CD
  number.
\<close>

definition rss_review :: "feed_entry \<Rightarrow> review option" where
  "rss_review entry =
     (case re_search cd_pattern (case entry_link entry of None \<Rightarrow> [] | Some l \<Rightarrow> l) of
        None \<Rightarrow> None
      | Some cd \<Rightarrow>
          Some (Review cd (case entry_link entry of None \<Rightarrow> [] | Some l \<Rightarrow> l)
                          (case entry_title entry of None \<Rightarrow> [] | Some t \<Rightarrow> t)))"

definition fetch_rss_reviews :: "world \<Rightarrow> event list \<Rightarrow> review list \<times> event list" where
  "fetch_rss_reviews W log =
     (case rss W log of
        FeedFailed \<Rightarrow> []
      | Feed entries \<Rightarrow> List.map_filter rss_review entries,
      log @ [ParseFeed RSS_URL])"

text \<open>One \<^verbatim>\<open>a\<close> tag with an \<^verbatim>\<open>href\<close>: a review when the href holds a CD number.\<close>

definition anchor_review :: "node \<Rightarrow> review option" where
  "anchor_review a =
     (case a of
        Text s \<Rightarrow> None
      | Tag name attrs contents \<Rightarrow>
          (case map_of attrs ''href'' of
             None \<Rightarrow> None
           | Some href \<Rightarrow>
               (case re_search cd_pattern href of
                  None \<Rightarrow> None
                | Some cd \<Rightarrow>
                    Some (Review cd
                      (if take 1 href = ''/'' then COCHRANE_BASE_URL @ href else href)
                      (get_text_strip a)))))"

text \<open>The deduplication loop: the first review of each CD number.\<close>

fun unique_reviews :: "string list \<Rightarrow> review list \<Rightarrow> review list" where
  "unique_reviews seen [] = []"
| "unique_reviews seen (r # rs) =
     (if cd_number r \<in> set seen then unique_reviews seen rs
      else r # unique_reviews (cd_number r # seen) rs)"

text \<open>\<^verbatim>\<open>raise_for_status\<close> raises on a status from 400 to 599.\<close>

definition scrape_news_page :: "lib \<Rightarrow> world \<Rightarrow> event list \<Rightarrow> review list \<times> event list" where
  "scrape_news_page L W log =
     (case web W log NEWS_URL of
        RequestFailed \<Rightarrow> []
      | Response status_code body \<Rightarrow>
          if 400 \<le> status_code \<and> status_code < 600 then []
          else unique_reviews []
                 (List.map_filter anchor_review (map fst (find_all [''a''] (html_parser L body)))),
      log @ [HttpGet NEWS_URL])"

text \<open>\<^verbatim>\<open>get_existing_cd_numbers\<close>: every CD number in the raw text of the store.\<close>

definition get_existing_cd_numbers :: "files \<Rightarrow> string set" where
  "get_existing_cd_numbers F =
     (case summaries_yml F of
        None \<Rightarrow> {}
      | Some content \<Rightarrow> set (re_findall cd_pattern content))"

subsection \<open>Fetching the page of a review\<close>

text \<open>
  The loop over the urls to try. \<open>response\<close> is the last response received, which a
  failed request leaves as it was; the loop ends at the first status 200.
\<close>

fun try_urls ::
  "world \<Rightarrow> string list \<Rightarrow> (nat \<times> string) option \<Rightarrow> event list \<Rightarrow> (nat \<times> string) option \<times> event list" where
  "try_urls W [] response log = (response, log)"
| "try_urls W (try_url # rest) response log =
     (case web W log try_url of
        RequestFailed \<Rightarrow> try_urls W rest response (log @ [HttpGet try_url])
      | Response status_code body \<Rightarrow>
          if status_code = 200 then (Some (status_code, body), log @ [HttpGet try_url])
          else try_urls W rest (Some (status_code, body)) (log @ [HttpGet try_url]))"

text \<open>The publisher's page of the CD number first, when there is one, then the review's url.\<close>

definition urls_to_try :: "string \<Rightarrow> string \<Rightarrow> string list" where
  "urls_to_try review_url cd =
     (if cd \<noteq> [] then [''https://www.cochrane.org/'' @ cd] else []) @ [review_url]"

definition fetch_plain_language_summary ::
  "lib \<Rightarrow> world \<Rightarrow> string \<Rightarrow> string \<Rightarrow> event list \<Rightarrow> string option \<times> event list" where
  "fetch_plain_language_summary L W review_url cd log =
     (case try_urls W (urls_to_try review_url cd) None log of
        (response, log') \<Rightarrow>
          (case response of
             None \<Rightarrow> None
           | Some (status_code, body) \<Rightarrow>
               if status_code \<noteq> 200 then None else extract_summary L (html_parser L body),
           log'))"

subsection \<open>enrich\_summary\<close>

text \<open>The second argument of \<^verbatim>\<open>str.replace\<close> must be a string.\<close>

fun as_str :: "pyval \<Rightarrow> exn + string" where
  "as_str (PStr s) = Inr s"
| "as_str _ = Inl TypeError"

text \<open>
  What \<^verbatim>\<open>enrich_summary\<close> does with the reply: \<^verbatim>\<open>{**summary, 'interest': ..., 'tags': ...}\<close>
  keeps the keys of the summary in their order and sets the two fields.
\<close>

definition parse_enrichment :: "lib \<Rightarrow> (pyval \<times> pyval) list \<Rightarrow> string option \<Rightarrow> exn + pyval option" where
  "parse_enrichment L summary response =
     (case if_truthy response of
        None \<Rightarrow> Inr None
      | Some reply \<Rightarrow>
          (case re_search json_object_pattern reply of
             None \<Rightarrow> Inr None
           | Some json_match \<Rightarrow>
               (case json_loads L json_match of
                  Inl e \<Rightarrow> if e = JSONDecodeError then Inr None else Inl e
                | Inr enrichment \<Rightarrow>
                    try_bind (get_str enrichment ''interest'' (PInt 5)) (\<lambda>interest.
                    try_bind (get_str enrichment ''tags'' (PList [])) (\<lambda>tags.
                      Inr (Some (PDict (dict_set (PStr ''tags'') tags
                                         (dict_set (PStr ''interest'') interest summary)))))))))"

definition enrich_summary ::
  "lib \<Rightarrow> world \<Rightarrow> files \<Rightarrow> pyval \<Rightarrow> event list \<Rightarrow> (exn + pyval option) \<times> event list" where
  "enrich_summary L W F summary log =
     (case enrichment_prompt F of
        None \<Rightarrow> (Inl FileNotFoundError, log)
      | Some prompt_template \<Rightarrow>
          (case try_bind (getitem_str summary ''question'') (\<lambda>q. try_bind (as_str q) (\<lambda>question.
                try_bind (getitem_str summary ''answer'') (\<lambda>a. try_bind (as_str a) (\<lambda>answer.
                try_bind (getitem_str summary ''notes'') (\<lambda>n. try_bind (as_str n) (\<lambda>notes.
                  Inr (replace ''{notes}'' notes
                        (replace ''{answer}'' answer
                          (replace ''{question}'' question prompt_template))))))))) of
             Inl e \<Rightarrow> (Inl e, log)
           | Inr prompt \<Rightarrow>
               (case call_claude W prompt 100 log of
                  (response, log') \<Rightarrow>
                    (case summary of
                       PDict kvs \<Rightarrow> (parse_enrichment L kvs response, log')
                     | _ \<Rightarrow> (Inl TypeError, log')))))"

subsection \<open>append\_to\_summaries, validate\_yaml\<close>

text \<open>One entry of the store, as the f-string and \<^verbatim>\<open>strip\<close> make it.\<close>

definition format_entry :: "lib \<Rightarrow> pyval \<Rightarrow> exn + string" where
  "format_entry L s =
     try_bind (getitem_str s ''question'') (\<lambda>question.
     try_bind (getitem_str s ''answer'') (\<lambda>answer.
     try_bind (getitem_str s ''url'') (\<lambda>review_url.
     try_bind (getitem_str s ''notes'') (\<lambda>notes.
     try_bind (getitem_str s ''interest'') (\<lambda>interest.
     try_bind (getitem_str s ''tags'') (\<lambda>tags.
       Inr (strip (''\<newline>- question: '' @ json_dumps L question @
                   ''\<newline>  answer: '' @ json_dumps L answer @
                   ''\<newline>  url: '' @ py_str L review_url @
                   ''\<newline>  notes: |\<newline>    '' @ py_str L notes @
                   ''\<newline>  interest: '' @ py_str L interest @
                   ''\<newline>  tags: '' @ json_dumps L tags @ ''\<newline>''))))))))"

fun format_entries :: "lib \<Rightarrow> pyval list \<Rightarrow> exn + string list" where
  "format_entries L [] = Inr []"
| "format_entries L (s # rest) =
     try_bind (format_entry L s) (\<lambda>entry.
     try_bind (format_entries L rest) (\<lambda>entries. Inr (entry # entries)))"

definition append_to_summaries :: "lib \<Rightarrow> files \<Rightarrow> pyval list \<Rightarrow> exn + files" where
  "append_to_summaries L F new_summaries =
     (if new_summaries = [] then Inr F
      else
        (case summaries_yml F of
           None \<Rightarrow> Inl FileNotFoundError
         | Some existing_content \<Rightarrow>
             try_bind (format_entries L new_summaries) (\<lambda>new_entries.
               Inr (F\<lparr>summaries_yml := Some (existing_content
                      @ ''\<newline>\<newline># New reviews added by automation\<newline>''
                      @ join ''\<newline>\<newline>'' new_entries @ ''\<newline>'')\<rparr>))))"

text \<open>Only \<^verbatim>\<open>yaml.YAMLError\<close> is caught.\<close>

definition validate_yaml :: "lib \<Rightarrow> files \<Rightarrow> exn + bool" where
  "validate_yaml L F =
     (case summaries_yml F of
        None \<Rightarrow> Inl FileNotFoundError
      | Some content \<Rightarrow>
          (case yaml_safe_load L content of
             Inl e \<Rightarrow> if e = YAMLError then Inr False else Inl e
           | Inr v \<Rightarrow> Inr True))"

subsection \<open>main\<close>

text \<open>\<^verbatim>\<open>xs[:n]\<close>: a negative \<open>n\<close> counts from the end.\<close>

definition slice_to :: "int \<Rightarrow> 'a list \<Rightarrow> 'a list" where
  "slice_to n xs = (if 0 \<le> n then take (nat n) xs else take (length xs - nat (- n)) xs)"

text \<open>
  The body of the loop for one review: what it adds to \<^verbatim>\<open>processed_summaries\<close>
  (\<open>None\<close> when it skips the review), or the exception it raises.
\<close>

definition process_review ::
  "lib \<Rightarrow> world \<Rightarrow> files \<Rightarrow> review \<Rightarrow> event list \<Rightarrow> (exn + pyval option) \<times> event list" where
  "process_review L W F review log =
     (case fetch_plain_language_summary L W (url review) (cd_number review) log of
        (pls, log1) \<Rightarrow>
          (case if_truthy pls of
             None \<Rightarrow> (Inr None, log1)
           | Some plain_language_summary \<Rightarrow>
               (case summarize_review L W F plain_language_summary log1 of
                  (Inl e, log2) \<Rightarrow> (Inl e, log2)
                | (Inr None, log2) \<Rightarrow> (Inr None, log2)
                | (Inr (Some summary), log2) \<Rightarrow>
                    if \<not> truthy summary then (Inr None, log2)
                    else
                      (case summary of
                         PDict kvs \<Rightarrow>
                           enrich_summary L W F
                             (PDict (dict_set (PStr ''url'') (PStr (url review)) kvs)) log2
                       | _ \<Rightarrow> (Inl TypeError, log2)))))"

fun process_reviews ::
  "lib \<Rightarrow> world \<Rightarrow> files \<Rightarrow> review list \<Rightarrow> event list \<Rightarrow> (exn + pyval list) \<times> event list" where
  "process_reviews L W F [] log = (Inr [], log)"
| "process_reviews L W F (review # rest) log =
     (case process_review L W F review log of
        (Inl e, log') \<Rightarrow> (Inl e, log')
      | (Inr enriched, log') \<Rightarrow>
          (case process_reviews L W F rest log' of
             (Inl e, log'') \<Rightarrow> (Inl e, log'')
           | (Inr processed, log'') \<Rightarrow>
               (Inr ((case enriched of None \<Rightarrow> [] | Some s \<Rightarrow> [s]) @ processed), log'')))"

text \<open>The command line.\<close>

record args =
  dry_run :: bool
  max_reviews :: int

text \<open>
  How the process ends, and what a run leaves behind: what it printed, the files, the
  events, and the summaries it appended to the store.
\<close>

datatype ending = Finished | SysExit nat | Uncaught exn

fun exit_status :: "ending \<Rightarrow> nat" where
  "exit_status Finished = 0"
| "exit_status (SysExit n) = n"
| "exit_status (Uncaught e) = 1"

record outcome =
  ending :: ending
  stdout :: "string list"
  store :: files
  events :: "event list"
  appended :: "pyval list"

text \<open>\<^verbatim>\<open>s.get('url', '')\<close> of a processed summary, whose url is the string main stored.\<close>

definition summary_url :: "pyval \<Rightarrow> string" where
  "summary_url s = (case get_str s ''url'' (PStr []) of Inr (PStr u) \<Rightarrow> u | _ \<Rightarrow> [])"

definition set_output :: "pyval list \<Rightarrow> string list" where
  "set_output processed_summaries =
     [''::set-output name=count::'' @ str_nat (length processed_summaries),
      ''::set-output name=reviews::'' @ join '','' (map summary_url processed_summaries)]"

text \<open>The end of main, from the loop's result on.\<close>

definition finish :: "lib \<Rightarrow> files \<Rightarrow> (exn + pyval list) \<times> event list \<Rightarrow> outcome" where
  "finish L F result =
     (case result of
        (Inl e, log) \<Rightarrow>
          \<lparr>ending = Uncaught e, stdout = [], store = F, events = log, appended = []\<rparr>
      | (Inr processed_summaries, log) \<Rightarrow>
          if processed_summaries = [] then
            \<lparr>ending = Finished, stdout = set_output processed_summaries, store = F,
             events = log, appended = []\<rparr>
          else
            (case append_to_summaries L F processed_summaries of
               Inl e \<Rightarrow> \<lparr>ending = Uncaught e, stdout = [], store = F, events = log, appended = []\<rparr>
             | Inr F' \<Rightarrow>
                 (case validate_yaml L F' of
                    Inl e \<Rightarrow> \<lparr>ending = Uncaught e, stdout = [], store = F', events = log,
                               appended = processed_summaries\<rparr>
                  | Inr valid \<Rightarrow>
                      if \<not> valid then
                        \<lparr>ending = SysExit 1, stdout = [], store = F', events = log,
                         appended = processed_summaries\<rparr>
                      else
                        \<lparr>ending = Finished, stdout = set_output processed_summaries, store = F',
                         events = log, appended = processed_summaries\<rparr>)))"

text \<open>Discovery: the feed first, the news page when the feed gives no review.\<close>

definition discover :: "lib \<Rightarrow> world \<Rightarrow> event list \<Rightarrow> review list \<times> event list" where
  "discover L W log =
     (case fetch_rss_reviews W log of
        (reviews, log') \<Rightarrow> if reviews = [] then scrape_news_page L W log' else (reviews, log'))"

definition main_update :: "lib \<Rightarrow> world \<Rightarrow> args \<Rightarrow> files \<Rightarrow> event list \<Rightarrow> outcome" where
  "main_update L W A F log =
     (case discover L W log of
        (reviews, log') \<Rightarrow>
          if reviews = [] then
            \<lparr>ending = Finished, stdout = [], store = F, events = log', appended = []\<rparr>
          else if filter (\<lambda>r. cd_number r \<notin> get_existing_cd_numbers F) reviews = [] then
            \<lparr>ending = Finished, stdout = [], store = F, events = log', appended = []\<rparr>
          else if dry_run A then
            \<lparr>ending = Finished, stdout = [], store = F, events = log', appended = []\<rparr>
          else
            finish L F
              (process_reviews L W F
                 (slice_to (max_reviews A)
                    (filter (\<lambda>r. cd_number r \<notin> get_existing_cd_numbers F) reviews))
                 log'))"

subsection \<open>The events of a run and the reviews they belong to\<close>




subsection \<open>The heading fallback in the words of the specification\<close>




section \<open>Sample inputs\<close>

text \<open>A store with three records, the second dated.\<close>

definition sample_store :: "pyval list" where
  "sample_store =
     [PDict [(PStr ''question'', PStr ''q1''), (PStr ''url'', PStr ''https://www.cochrane.org/CD012345'')],
      PDict [(PStr ''url'', PStr ''https://www.cochrane.org/CD000001''), (PStr ''date'', PStr ''2019-01-01'')],
      PDict [(PStr ''url'', PStr ''https://www.cochrane.org/cd012345/full''), (PStr ''date'', PNone),
             (PStr ''tags'', PList [])]]"

text \<open>Sample network: one publisher page with embedded metadata, 404 elsewhere.\<close>

definition page_only_net :: "string \<Rightarrow> http_result" where
  \<open>page_only_net u =
     (if u = ''https://www.cochrane.org/CD012345''
      then Response 200 ''<script>{"datePublished": "2020-03-04T10:00:00"}</script>''
      else Response 404 [])\<close>

text \<open>Every task sees the sample network.\<close>

definition sample_net :: "nat \<Rightarrow> string \<Rightarrow> http_result" where
  "sample_net i = page_only_net"

definition sample_filled :: "pyval list" where
  "sample_filled =
     [PDict [(PStr ''question'', PStr ''q1''), (PStr ''url'', PStr ''https://www.cochrane.org/CD012345''),
             (PStr ''date'', PStr ''2020-03-04'')],
      PDict [(PStr ''url'', PStr ''https://www.cochrane.org/CD000001''), (PStr ''date'', PStr ''2019-01-01'')],
      PDict [(PStr ''url'', PStr ''https://www.cochrane.org/cd012345/full''),
             (PStr ''date'', PStr ''2020-03-04''), (PStr ''tags'', PList [])]]"




text \<open>A page with the summary in its second section, under an h3 heading.\<close>

definition abstract_heading :: node where
  "abstract_heading = Tag ''h2'' [] [Text ''Abstract'']"

definition summary_heading :: node where
  "summary_heading = Tag ''h3'' [(''class'', ''title'')] [Tag ''span'' [] [Text ''PLAIN Language''], Text '' summary'']"

definition summary_following :: "node list" where
  "summary_following =
     [Tag ''p'' [] [Text '' Exercise helps. ''],
      Text ''\<newline>'',
      Tag ''ul'' [] [Tag ''li'' [] [Text ''Less pain'']],
      Tag ''h4'' [] [Text ''Funding''],
      Tag ''p'' [] [Text ''None.'']]"

definition summary_page :: "node list" where
  "summary_page =
     [Tag ''main'' []
        (abstract_heading # Tag ''p'' [] [Text ''Background.''] # summary_heading # summary_following)]"


text \<open>The prompt files and an empty store.\<close>

definition sample_files :: files where
  "sample_files =
     \<lparr>summaries_yml = Some [],
      summarize_prompt = Some ''Summarise: {plain_language_summary}'',
      enrichment_prompt = Some ''Score: {question} {answer} {notes}''\<rparr>"







text \<open>
  A feed with two reviews, pages that all parse to the sample page, and a language model
  that answers the summary prompt and the enrichment prompt with one object each. The
  decoder and \<^verbatim>\<open>json.dumps\<close> of the library give what Python gives on the values
  involved; the store is valid YAML or not as the first argument says.
\<close>

definition summary_reply :: string where
  \<open>summary_reply = ''{"question": "Does exercise help?", "answer": "Yes", "notes": "Moderate evidence"}''\<close>

definition enrichment_reply :: string where
  \<open>enrichment_reply = ''{"interest": 7, "tags": ["pain"]}''\<close>

definition skip_reply :: string where
  \<open>skip_reply = ''{"skip": true, "reason": "protocol"}''\<close>

fun feed_json_dumps :: "pyval \<Rightarrow> string" where
  \<open>feed_json_dumps (PStr s) = ''"'' @ s @ ''"''\<close>
| \<open>feed_json_dumps (PList xs) =
     ''['' @ join '', '' (map (\<lambda>x. case x of PStr s \<Rightarrow> ''"'' @ s @ ''"'' | _ \<Rightarrow> []) xs) @ '']''\<close>
| \<open>feed_json_dumps v = []\<close>

definition feed_lib :: "bool \<Rightarrow> lib" where
  "feed_lib valid =
     \<lparr>json_loads = (\<lambda>s. case map_of
          [(summary_reply, PDict [(PStr ''question'', PStr ''Does exercise help?''),
                                  (PStr ''answer'', PStr ''Yes''),
                                  (PStr ''notes'', PStr ''Moderate evidence'')]),
           (enrichment_reply, PDict [(PStr ''interest'', PInt 7), (PStr ''tags'', PList [PStr ''pain''])]),
           (skip_reply, PDict [(PStr ''skip'', PBool True), (PStr ''reason'', PStr ''protocol'')])] s of
          None \<Rightarrow> Inl JSONDecodeError | Some v \<Rightarrow> Inr v),
      json_dumps = feed_json_dumps,
      container_str = (\<lambda>v. []),
      yaml_safe_load = (\<lambda>s. if valid then Inr PNone else Inl YAMLError),
      html_parser = (\<lambda>s. summary_page),
      select_one = (\<lambda>soup selector. None)\<rparr>"

definition feed_world :: world where
  "feed_world =
     \<lparr>rss = (\<lambda>log. Feed
        [FeedEntry (Some ''https://www.cochranelibrary.com/cdsr/doi/10.1002/14651858.CD000001/full'')
                   (Some ''Exercise for knee pain''),
         FeedEntry (Some ''https://www.cochranelibrary.com/cdsr/doi/10.1002/14651858.CD000002.pub3/full'')
                   (Some ''Rest for back pain'')]),
      web = (\<lambda>log u. Response 200 ''<html>''),
      model = (\<lambda>log prompt max_tokens. Some (if max_tokens = 500 then summary_reply else enrichment_reply))\<rparr>"

text \<open>The same world with a language model that answers every prompt with a skip.\<close>

definition skipping_world :: world where
  "skipping_world = feed_world\<lparr>model := (\<lambda>log prompt max_tokens. Some skip_reply)\<rparr>"

definition knee_review :: review where
  "knee_review = Review ''CD000001''
     ''https://www.cochranelibrary.com/cdsr/doi/10.1002/14651858.CD000001/full'' ''Exercise for knee pain''"






text \<open>The store fails to parse: \<^verbatim>\<open>yaml.safe_load\<close> raises on its text.\<close>

definition unparseable :: "lib \<Rightarrow> files \<Rightarrow> bool" where
  "unparseable L F =
     (case summaries_yml F of None \<Rightarrow> False | Some content \<Rightarrow> isl (yaml_safe_load L content))"

text \<open>A library whose JSON decoder knows one document.\<close>

definition one_document_lib :: "string \<Rightarrow> pyval \<Rightarrow> lib" where
  "one_document_lib body data =
     \<lparr>json_loads = (\<lambda>s. if s = body then Inr data else Inl JSONDecodeError),
      json_dumps = (\<lambda>v. []),
      container_str = (\<lambda>v. []),
      yaml_safe_load = (\<lambda>s. Inl YAMLError),
      html_parser = (\<lambda>s. []),
      select_one = (\<lambda>soup selector. None)\<rparr>"

section \<open>Properties\<close>

lemma try_bind_simps [simp]:
  "try_bind (Inl e) f = Inl e"
  "try_bind (Inr x) f = f x"
  by (simp_all add: try_bind_def)

subsection \<open>Date granularity\<close>

















subsection \<open>Date fallback ordering\<close>














subsection \<open>The concurrent backfill\<close>

lemma dateless_Inr:
  "dateless xs = Inr pending \<Longrightarrow>
     (\<forall>ie\<in>set xs. \<exists>kvs. snd ie = PDict kvs)
   \<and> pending = filter (\<lambda>ie. \<not> truthy (entry_date (snd ie))) xs"
proof (induction xs arbitrary: pending)
  case Nil
  then show ?case by simp
next
  case (Cons ie xs)
  obtain i s where ie: "ie = (i, s)" by (cases ie)
  from Cons.prems ie obtain d where d: "get_str s ''date'' PNone = Inr d"
    by (cases "get_str s ''date'' PNone") simp_all
  then obtain kvs where s: "s = PDict kvs" by (cases s) simp_all
  from d s have dd: "d = entry_date s" by (auto simp: entry_date_def)
  from Cons.prems ie d obtain r where r: "dateless xs = Inr r"
    by (cases "dateless xs") simp_all
  from Cons.IH[OF r] have ih: "\<forall>ie\<in>set xs. \<exists>kvs. snd ie = PDict kvs"
    "r = filter (\<lambda>ie. \<not> truthy (entry_date (snd ie))) xs" by simp_all
  from Cons.prems ie d r have "pending = (if truthy d then r else (i, s) # r)" by simp
  with ih ie s dd show ?case by auto
qed

lemma dateless_dicts:
  "\<forall>ie\<in>set xs. \<exists>kvs. snd ie = PDict kvs \<Longrightarrow>
   dateless xs = Inr (filter (\<lambda>ie. \<not> truthy (entry_date (snd ie))) xs)"
proof (induction xs)
  case Nil
  then show ?case by simp
next
  case (Cons ie xs)
  obtain i s where ie: "ie = (i, s)" by (cases ie)
  from Cons.prems ie obtain kvs where s: "s = PDict kvs" by auto
  from Cons have "dateless xs = Inr (filter (\<lambda>ie. \<not> truthy (entry_date (snd ie))) xs)" by simp
  with ie s show ?case by (simp add: entry_date_def)
qed

lemma get_date_for_entry_index:
  "snd (get_date_for_entry L rg e i) = Inr (j, d) \<Longrightarrow> j = i"
  by (auto simp: get_date_for_entry_def Let_def
      split: sum.splits if_splits pyval.splits prod.splits option.splits)

lemma record_entry_dict: "record_entry e \<Longrightarrow> \<exists>kvs. e = PDict kvs"
  by (cases e) (simp_all add: record_entry_def)

lemma record_entry_returns:
  assumes "record_entry e"
  shows "\<exists>d. snd (get_date_for_entry L rg e i) = Inr (i, d)"
proof -
  from assms obtain kvs where e: "e = PDict kvs" by (auto dest: record_entry_dict)
  show ?thesis
  proof (cases "map_of kvs (PStr ''url'')")
    case None
    with e show ?thesis
      by (simp add: get_date_for_entry_def Let_def split: prod.splits option.splits)
  next
    case (Some v)
    with assms e obtain u where "v = PStr u"
      by (cases v) (simp_all add: record_entry_def)
    with Some e show ?thesis
      by (simp add: get_date_for_entry_def Let_def split: prod.splits option.splits)
  qed
qed

lemma merge_completed_target:
  assumes "length tgt = length es"
    and "distinct (map idx cs)"
    and "\<forall>f\<in>set cs. \<exists>i d kvs. snd f = Inr (i, d) \<and> i < length es \<and> es ! i = PDict kvs
           \<and> tgt ! i = (if truthy d then PDict (dict_set (PStr ''date'') d kvs) else es ! i)"
    and "\<forall>j<length es. j \<notin> idx ` set cs \<longrightarrow> es ! j = tgt ! j"
  shows "merge_completed cs (PList es) = Inr (PList tgt)"
  using assms
proof (induction cs arbitrary: es)
  case Nil
  then have "es = tgt" by (auto intro: nth_equalityI)
  then show ?case by simp
next
  case (Cons f cs)
  from Cons.prems(3) obtain i d kvs where f: "snd f = Inr (i, d)" and i: "i < length es"
    and ei: "es ! i = PDict kvs"
    and ti: "tgt ! i = (if truthy d then PDict (dict_set (PStr ''date'') d kvs) else es ! i)"
    by auto
  have fi: "idx f = i" using f by (simp add: idx_def)
  from Cons.prems(2) fi have inot: "i \<notin> idx ` set cs" and dist: "distinct (map idx cs)" by auto
  define es1 where "es1 = es[i := tgt ! i]"
  have len1: "length tgt = length es1" using Cons.prems(1) by (simp add: es1_def)
  have p3: "\<forall>g\<in>set cs. \<exists>k d kvs. snd g = Inr (k, d) \<and> k < length es1 \<and> es1 ! k = PDict kvs
           \<and> tgt ! k = (if truthy d then PDict (dict_set (PStr ''date'') d kvs) else es1 ! k)"
  proof
    fix g assume g: "g \<in> set cs"
    with Cons.prems(3) obtain k d' kvs' where k: "snd g = Inr (k, d')" "k < length es"
      "es ! k = PDict kvs'"
      "tgt ! k = (if truthy d' then PDict (dict_set (PStr ''date'') d' kvs') else es ! k)"
      by fastforce
    from k(1) have "idx g = k" by (simp add: idx_def)
    with g inot have "k \<noteq> i" by auto
    then have "es1 ! k = es ! k" by (simp add: es1_def)
    with k show "\<exists>k d kvs. snd g = Inr (k, d) \<and> k < length es1 \<and> es1 ! k = PDict kvs
           \<and> tgt ! k = (if truthy d then PDict (dict_set (PStr ''date'') d kvs) else es1 ! k)"
      by (auto simp: es1_def)
  qed
  have p4: "\<forall>j<length es1. j \<notin> idx ` set cs \<longrightarrow> es1 ! j = tgt ! j"
  proof (intro allI impI)
    fix j assume j: "j < length es1" "j \<notin> idx ` set cs"
    show "es1 ! j = tgt ! j"
    proof (cases "j = i")
      case True
      with i show ?thesis by (simp add: es1_def)
    next
      case False
      with j fi have "j \<notin> idx ` set (f # cs)" by auto
      with Cons.prems(4) j have "es ! j = tgt ! j" by (simp add: es1_def)
      with False show ?thesis by (simp add: es1_def)
    qed
  qed
  have ih: "merge_completed cs (PList es1) = Inr (PList tgt)"
    using Cons.IH[OF len1 dist p3 p4] .
  show ?case
  proof (cases "truthy d")
    case True
    with ti have "es1 = es[i := PDict (dict_set (PStr ''date'') d kvs)]" by (simp add: es1_def)
    with True f i ei ih show ?thesis by simp
  next
    case False
    with ti have "es1 = es" by (simp add: es1_def)
    with False f ih show ?thesis by simp
  qed
qed

lemma backfill_tasks:
  fixes L :: lib and net :: "nat \<Rightarrow> string \<Rightarrow> http_result"
  assumes rec: "list_all record_entry es"
  defines "pending \<equiv> filter (\<lambda>ie. \<not> truthy (entry_date (snd ie))) (enumerate 0 es)"
  defines "fs \<equiv> map (\<lambda>(i, entry). get_date_for_entry L (net i) entry i) pending"
  assumes perm: "mset cs = mset fs"
  shows "merge_completed cs (PList es) = Inr (PList (map (backfilled L net) (enumerate 0 es)))"
proof (rule merge_completed_target)
  let ?tgt = "map (backfilled L net) (enumerate 0 es)"
  show "length ?tgt = length es" by simp
  have task_idx: "idx (get_date_for_entry L (net i) e i) = i" if "(i, e) \<in> set pending" for i e
  proof -
    from that have "e \<in> set es" by (auto simp: pending_def in_set_enumerate_eq)
    with rec have "record_entry e" by (simp add: list_all_iff)
    from record_entry_returns[OF this, of L "net i" i] show ?thesis by (auto simp: idx_def)
  qed
  have "map idx fs = map fst pending"
    unfolding fs_def by (auto simp: task_idx)
  moreover have "distinct (map fst pending)"
    unfolding pending_def by (rule distinct_map_filter) simp
  ultimately have "distinct (map idx fs)" by simp
  moreover from perm have "mset (map idx cs) = mset (map idx fs)" by simp
  ultimately show "distinct (map idx cs)" by (metis mset_eq_imp_distinct_iff)
  from perm have sets: "set cs = set fs" by (rule mset_eq_setD)
  show "\<forall>f\<in>set cs. \<exists>i d kvs. snd f = Inr (i, d) \<and> i < length es \<and> es ! i = PDict kvs
           \<and> ?tgt ! i = (if truthy d then PDict (dict_set (PStr ''date'') d kvs) else es ! i)"
  proof
    fix f assume "f \<in> set cs"
    with sets obtain i e where ie: "(i, e) \<in> set pending" and f: "f = get_date_for_entry L (net i) e i"
      by (auto simp: fs_def)
    from ie have i: "i < length es" and e: "e = es ! i" and nd: "\<not> truthy (entry_date e)"
      by (auto simp: pending_def in_set_enumerate_eq)
    from i e rec have re: "record_entry e" by (simp add: list_all_length)
    then obtain kvs where kvs: "e = PDict kvs" by (auto dest: record_entry_dict)
    from record_entry_returns[OF re, of L "net i" i] obtain d where d: "snd f = Inr (i, d)"
      unfolding f by blast
    have "?tgt ! i = backfilled L net (i, e)" using i e by (simp add: nth_enumerate_eq)
    also have "\<dots> = (if truthy d then PDict (dict_set (PStr ''date'') d kvs) else e)"
      using nd d kvs unfolding f by (simp add: backfilled_def)
    finally have t: "?tgt ! i = (if truthy d then PDict (dict_set (PStr ''date'') d kvs) else es ! i)"
      using e by simp
    have "es ! i = PDict kvs" using e kvs by simp
    with d i t show "\<exists>i d kvs. snd f = Inr (i, d) \<and> i < length es \<and> es ! i = PDict kvs
           \<and> ?tgt ! i = (if truthy d then PDict (dict_set (PStr ''date'') d kvs) else es ! i)"
      by blast
  qed
  show "\<forall>j<length es. j \<notin> idx ` set cs \<longrightarrow> es ! j = ?tgt ! j"
  proof (intro allI impI)
    fix j assume j: "j < length es" "j \<notin> idx ` set cs"
    have "truthy (entry_date (es ! j))"
    proof (rule ccontr)
      assume "\<not> truthy (entry_date (es ! j))"
      with j have p: "(j, es ! j) \<in> set pending"
        by (auto simp: pending_def in_set_enumerate_eq)
      then have "get_date_for_entry L (net j) (es ! j) j \<in> set fs"
        unfolding fs_def by force
      with sets task_idx[OF p] j show False by force
    qed
    moreover from j rec have "record_entry (es ! j)" by (simp add: list_all_length)
    then obtain kvs where "es ! j = PDict kvs" by (auto dest: record_entry_dict)
    ultimately have "backfilled L net (j, es ! j) = es ! j" by (simp add: backfilled_def)
    with j show "es ! j = ?tgt ! j" by (simp add: nth_enumerate_eq)
  qed
qed


lemma sample_store_records: "list_all record_entry sample_store"
  by (simp add: sample_store_def record_entry_def)

lemma sample_store_dateless: "\<exists>e\<in>set sample_store. \<not> truthy (entry_date e)"
  by (simp add: sample_store_def entry_date_def)

lemma sample_backfilled:
  "map (backfilled (one_document_lib [] PNone) sample_net) (enumerate 0 sample_store) = sample_filled"
  by code_simp

lemma sample_run:
  "main_add_dates (one_document_lib [] PNone) sample_net rev (Inr (PList sample_store)) =
     Returned (Some (PList sample_filled))"
  by code_simp

text \<open>
  C6. For a store of records of which at least one lacks a date, whatever the order in
  which the tasks complete (any permutation of the submitted futures), the run writes the
  same collection: position \<open>i\<close> holds the record that was at position \<open>i\<close>, with the
  date its own task resolved filled in when it lacked one and its task found one.
\<close>

theorem backfill_positional_integrity:
  assumes "list_all record_entry es"
    and "\<exists>e\<in>set es. \<not> truthy (entry_date e)"
    and "\<forall>fs. mset (as_completed fs) = mset fs"
  shows "main_add_dates L net as_completed (Inr (PList es)) =
           Returned (Some (PList (map (backfilled L net) (enumerate 0 es))))"
proof -
  define pending where "pending = filter (\<lambda>ie. \<not> truthy (entry_date (snd ie))) (enumerate 0 es)"
  have dicts: "\<forall>ie\<in>set (enumerate 0 es). \<exists>kvs. snd ie = PDict kvs"
  proof
    fix ie assume mem: "ie \<in> set (enumerate 0 es)"
    obtain i e where "ie = (i, e)" by (cases ie)
    with mem have "snd ie \<in> set es" by (auto simp: in_set_enumerate_eq)
    with assms(1) have "record_entry (snd ie)" by (simp add: list_all_iff)
    then show "\<exists>kvs. snd ie = PDict kvs" by (rule record_entry_dict)
  qed
  have dl: "dateless (enumerate 0 es) = Inr pending"
    unfolding pending_def using dicts by (rule dateless_dicts)
  from assms(2) obtain e where e: "e \<in> set es" "\<not> truthy (entry_date e)" by blast
  then obtain i where "i < length es" "es ! i = e" by (auto simp: in_set_conv_nth)
  with e have "(i, e) \<in> set pending" by (auto simp: pending_def in_set_enumerate_eq)
  then have ne: "length pending \<noteq> 0" by auto
  from e have tr: "truthy (PList es)" by auto
  have mc: "merge_completed
      (as_completed (map (\<lambda>(i, entry). get_date_for_entry L (net i) entry i) pending)) (PList es)
    = Inr (PList (map (backfilled L net) (enumerate 0 es)))"
    unfolding pending_def using assms(1) by (rule backfill_tasks) (simp add: assms(3))
  show ?thesis
    using tr ne by (simp add: main_add_dates_def dl mc)
qed

theorem backfill_positional_integrity_witness:
  "main_add_dates (one_document_lib [] PNone) sample_net rev (Inr (PList sample_store)) =
     Returned (Some (PList sample_filled))"
  using backfill_positional_integrity
    [where es = sample_store and as_completed = rev
       and L = "one_document_lib [] PNone" and net = sample_net]
  by (simp add: sample_store_records sample_store_dateless sample_backfilled)

subsection \<open>The frame of the backfill\<close>

lemma other_fields_dict_set:
  "filter (\<lambda>kv. fst kv \<noteq> k) (dict_set k v kvs) = filter (\<lambda>kv. fst kv \<noteq> k) kvs"
  by (induction kvs) auto

lemma keeps_refl: "e = PDict kvs \<Longrightarrow> keeps e e"
  by (simp add: keeps_def)

lemma keeps_set_date:
  assumes "keeps e0 (PDict kvs)" "\<not> truthy (entry_date e0)"
  shows "keeps e0 (PDict (dict_set (PStr ''date'') d kvs))"
  using assms by (simp add: keeps_def other_fields_def other_fields_dict_set)

lemma merge_completed_keeps:
  assumes "merge_completed cs (PList es) = Inr w"
    and "\<forall>f\<in>set cs. \<forall>i d. snd f = Inr (i, d) \<longrightarrow> i < length es0 \<and> \<not> truthy (entry_date (es0 ! i))"
    and "list_all2 keeps es0 es"
  shows "\<exists>es'. w = PList es' \<and> list_all2 keeps es0 es'"
  using assms
proof (induction cs arbitrary: es)
  case Nil
  then show ?case by auto
next
  case (Cons f cs)
  from Cons.prems(1) obtain i d where f: "snd f = Inr (i, d)"
    by (cases "snd f") (auto split: prod.splits)
  with Cons.prems(2) have i: "i < length es0" and nd: "\<not> truthy (entry_date (es0 ! i))" by auto
  from Cons.prems(3) have len: "length es = length es0" by (simp add: list_all2_lengthD)
  from Cons.prems(2) have rest: "\<forall>f\<in>set cs. \<forall>i d. snd f = Inr (i, d) \<longrightarrow>
      i < length es0 \<and> \<not> truthy (entry_date (es0 ! i))" by simp
  show ?case
  proof (cases "truthy d")
    case False
    with Cons.prems(1) f have "merge_completed cs (PList es) = Inr w" by simp
    from Cons.IH[OF this rest Cons.prems(3)] show ?thesis .
  next
    case True
    from Cons.prems(3) i have k: "keeps (es0 ! i) (es ! i)" by (simp add: list_all2_nthD)
    then obtain kvs where kvs: "es ! i = PDict kvs" by (cases "es ! i") (simp_all add: keeps_def)
    define es1 where "es1 = es[i := PDict (dict_set (PStr ''date'') d kvs)]"
    from True f i len kvs Cons.prems(1) have m: "merge_completed cs (PList es1) = Inr w"
      by (simp add: es1_def)
    from k kvs nd have "keeps (es0 ! i) (PDict (dict_set (PStr ''date'') d kvs))"
      by (simp add: keeps_set_date)
    with Cons.prems(3) i have "list_all2 keeps es0 es1"
      unfolding es1_def by (simp add: list_all2_conv_all_nth nth_list_update)
    from Cons.IH[OF m rest this] show ?thesis .
  qed
qed


text \<open>
  C9. When the backfill run writes the store, what it writes is the sequence it read,
  record by record in the same order: every record keeps its fields other than
  \<^verbatim>\<open>date\<close> (their values and their order), and a record that had a date is written as it
  was read.
\<close>

theorem backfill_frame:
  assumes "\<forall>fs. mset (as_completed fs) = mset fs"
    and "main_add_dates L net as_completed (Inr (PList es)) = Returned (Some written)"
  shows "\<exists>es'. written = PList es' \<and> list_all2 keeps es es'"
proof -
  from assms(2) have tr: "truthy (PList es)"
    by (auto simp: main_add_dates_def split: if_splits)
  from assms(2) tr obtain pending where dl: "dateless (enumerate 0 es) = Inr pending"
    by (cases "dateless (enumerate 0 es)") (auto simp: main_add_dates_def)
  define fs where "fs = map (\<lambda>(i, entry). get_date_for_entry L (net i) entry i) pending"
  from assms(2) tr dl have ne: "length pending \<noteq> 0"
    by (auto simp: main_add_dates_def split: if_splits)
  with assms(2) tr dl have mc: "merge_completed (as_completed fs) (PList es) = Inr written"
    by (auto simp: main_add_dates_def fs_def split: sum.splits)
  from dateless_Inr[OF dl] have dicts: "\<forall>ie\<in>set (enumerate 0 es). \<exists>kvs. snd ie = PDict kvs"
    and pending: "pending = filter (\<lambda>ie. \<not> truthy (entry_date (snd ie))) (enumerate 0 es)"
    by simp_all
  have refl: "list_all2 keeps es es"
  proof (rule list_all2_all_nthI)
    fix n assume "n < length es"
    then have "(n, es ! n) \<in> set (enumerate 0 es)" by (simp add: in_set_enumerate_eq)
    with dicts obtain kvs where "es ! n = PDict kvs" by fastforce
    then show "keeps (es ! n) (es ! n)" by (rule keeps_refl)
  qed simp
  have "set (as_completed fs) = set fs" using assms(1) by (metis mset_eq_setD)
  then have tasks: "\<forall>f\<in>set (as_completed fs). \<forall>i d. snd f = Inr (i, d) \<longrightarrow>
      i < length es \<and> \<not> truthy (entry_date (es ! i))"
    by (auto simp: fs_def pending in_set_enumerate_eq dest: get_date_for_entry_index)
  from merge_completed_keeps[OF mc tasks refl] show ?thesis .
qed

theorem backfill_frame_witness:
  "list_all2 keeps sample_store sample_filled"
  using backfill_frame
    [where as_completed = rev and L = "one_document_lib [] PNone" and net = sample_net
       and es = sample_store and written = "PList sample_filled"]
  by (simp add: sample_run)

subsection \<open>The heading fallback of the extraction\<close>















subsection \<open>What summarize\_review parses\<close>















subsection \<open>The validation gate\<close>

lemma finish_gate:
  assumes "appended (finish L F res) \<noteq> []"
    and "unparseable L (store (finish L F res))"
  shows "exit_status (ending (finish L F res)) \<noteq> 0 \<and> stdout (finish L F res) = []"
proof -
  obtain r lg where res: "res = (r, lg)" by (cases res)
  show ?thesis
  proof (cases r)
    case (Inl e)
    with res show ?thesis by (simp add: finish_def)
  next
    case (Inr ps)
    show ?thesis
    proof (cases "ps = []")
      case True
      with res Inr assms(1) show ?thesis by (simp add: finish_def)
    next
      case False
      show ?thesis
      proof (cases "append_to_summaries L F ps")
        case (Inl e)
        with res Inr False show ?thesis by (simp add: finish_def)
      next
        case F': (Inr F')
        show ?thesis
        proof (cases "validate_yaml L F'")
          case (Inl e)
          with res Inr False F' show ?thesis by (simp add: finish_def)
        next
          case v: (Inr valid)
          from assms(2) res Inr False F' v have "unparseable L F'"
            by (simp add: finish_def split: if_splits)
          with v have "\<not> valid"
            by (auto simp: unparseable_def validate_yaml_def isl_def split: option.splits if_splits)
          with res Inr False F' v show ?thesis by (simp add: finish_def)
        qed
      qed
    qed
  qed
qed


text \<open>
  C2. In every run that appends at least one record: if \<^verbatim>\<open>yaml.safe_load\<close> raises on the
  text of the store after the append, the process ends with a non-zero exit status
  (\<^verbatim>\<open>sys.exit(1)\<close>, or the uncaught exception when it is no \<^verbatim>\<open>YAMLError\<close>) and prints
  neither the count nor the list of new urls.
\<close>

theorem validation_gate:
  assumes "appended (main_update L W A F log) \<noteq> []"
    and "unparseable L (store (main_update L W A F log))"
  shows "exit_status (ending (main_update L W A F log)) \<noteq> 0 \<and> stdout (main_update L W A F log) = []"
proof -
  obtain reviews log' where d: "discover L W log = (reviews, log')" by (cases "discover L W log")
  let ?new = "filter (\<lambda>r. cd_number r \<notin> get_existing_cd_numbers F) reviews"
  from assms(1) d have run: "main_update L W A F log =
      finish L F (process_reviews L W F (slice_to (max_reviews A) ?new) log')"
    by (auto simp: main_update_def split: if_splits)
  from assms show ?thesis unfolding run by (rule finish_gate)
qed

lemma sample_invalid_appended:
  "appended (main_update (feed_lib False) feed_world \<lparr>dry_run = False, max_reviews = 10\<rparr> sample_files []) \<noteq> []"
  by code_simp

lemma sample_invalid_store:
  "unparseable (feed_lib False)
     (store (main_update (feed_lib False) feed_world \<lparr>dry_run = False, max_reviews = 10\<rparr> sample_files []))"
  by code_simp

theorem validation_gate_witness:
  "exit_status (ending (main_update (feed_lib False) feed_world
      \<lparr>dry_run = False, max_reviews = 10\<rparr> sample_files [])) \<noteq> 0
   \<and> stdout (main_update (feed_lib False) feed_world
      \<lparr>dry_run = False, max_reviews = 10\<rparr> sample_files []) = []"
  using validation_gate[OF sample_invalid_appended sample_invalid_store] .

subsection \<open>Skip propagation\<close>

lemma process_reviews_append:
  "process_reviews L W F (xs @ ys) log =
     (case process_reviews L W F xs log of
        (Inl e, l) \<Rightarrow> (Inl e, l)
      | (Inr ps, l) \<Rightarrow>
          (case process_reviews L W F ys l of
             (Inl e, l') \<Rightarrow> (Inl e, l')
           | (Inr qs, l') \<Rightarrow> (Inr (ps @ qs), l')))"
proof (induction xs arbitrary: log)
  case Nil
  show ?case by (simp split: prod.splits sum.splits)
next
  case (Cons x xs)
  show ?case
    by (simp add: Cons.IH split: prod.splits sum.splits)
qed


text \<open>
  C3. For a candidate whose page gave a summary text and whose model reply decodes, at
  the span \<^verbatim>\<open>summarize_review\<close> parses, to an object with a truthy skip flag:
  \<^verbatim>\<open>summarize_review\<close> returns nothing; the loop body ends right after that call, so no
  enrichment call is made; and the batch of the whole loop is the batch of the candidates
  before it followed by the batch of the candidates after it, with no record for this
  one.
\<close>

theorem skip_propagation:
  assumes "process_reviews L W F before log0 = (Inr ps, log)"
    and "fetch_plain_language_summary L W (url r) (cd_number r) log = (Some pls, log1)"
    and "pls \<noteq> []"
    and "summarize_prompt F = Some template"
    and "model W log1 (replace ''{plain_language_summary}'' pls template) 500 = Some response"
    and "re_search json_object_pattern response = Some json_match"
    and "json_loads L json_match = Inr (PDict kvs)"
    and "map_of kvs (PStr ''skip'') = Some flag"
    and "truthy flag"
  shows "fst (summarize_review L W F pls log1) = Inr None
       \<and> process_review L W F r log =
           (Inr None, log1 @ [CallClaude (replace ''{plain_language_summary}'' pls template) 500])
       \<and> process_reviews L W F (before @ r # rest) log0 =
           (case process_reviews L W F rest
                   (log1 @ [CallClaude (replace ''{plain_language_summary}'' pls template) 500]) of
              (Inl e, l) \<Rightarrow> (Inl e, l)
            | (Inr qs, l) \<Rightarrow> (Inr (ps @ qs), l))"
proof -
  let ?log2 = "log1 @ [CallClaude (replace ''{plain_language_summary}'' pls template) 500]"
  from assms(6) have "response \<noteq> []"
    by (auto simp: json_object_pattern_def)
  then have "if_truthy (Some response) = Some response" by (simp add: if_truthy_def)
  with assms(6-9) have parse: "parse_summary L (Some response) = Inr None"
    by (simp add: parse_summary_def)
  with assms(4,5) have summ: "summarize_review L W F pls log1 = (Inr None, ?log2)"
    by (simp add: summarize_review_def call_claude_def)
  from assms(3) have "if_truthy (Some pls) = Some pls" by (simp add: if_truthy_def)
  with assms(2) summ have one: "process_review L W F r log = (Inr None, ?log2)"
    by (simp add: process_review_def)
  have "process_reviews L W F (before @ r # rest) log0 =
      (case process_reviews L W F (r # rest) log of
         (Inl e, l) \<Rightarrow> (Inl e, l)
       | (Inr qs, l) \<Rightarrow> (Inr (ps @ qs), l))"
    by (simp add: process_reviews_append assms(1))
  also have "process_reviews L W F (r # rest) log = process_reviews L W F rest ?log2"
    by (simp add: one split: prod.splits sum.splits)
  finally show ?thesis using summ one by simp
qed

lemma sample_fetch:
  "fetch_plain_language_summary (feed_lib True) skipping_world (url knee_review) (cd_number knee_review) []
     = (Some ''Exercise helps.\<newline>\<newline>Less pain'', [HttpGet ''https://www.cochrane.org/CD000001''])"
  by code_simp

lemma sample_skip_reply:
  "model skipping_world [HttpGet ''https://www.cochrane.org/CD000001'']
     (replace ''{plain_language_summary}'' ''Exercise helps.\<newline>\<newline>Less pain''
        ''Summarise: {plain_language_summary}'') 500 = Some skip_reply"
  by (simp add: skipping_world_def)

lemma sample_skip_span: "re_search json_object_pattern skip_reply = Some skip_reply"
  by code_simp

lemma sample_skip_decoded:
  "json_loads (feed_lib True) skip_reply =
     Inr (PDict [(PStr ''skip'', PBool True), (PStr ''reason'', PStr ''protocol'')])"
  by code_simp

lemma sample_skip_prompt:
  "replace ''{plain_language_summary}'' ''Exercise helps.\<newline>\<newline>Less pain''
        ''Summarise: {plain_language_summary}'' = ''Summarise: Exercise helps.\<newline>\<newline>Less pain''"
  by code_simp

theorem skip_propagation_witness:
  "process_reviews (feed_lib True) skipping_world sample_files [knee_review] [] =
     (Inr [], [HttpGet ''https://www.cochrane.org/CD000001'',
               CallClaude ''Summarise: Exercise helps.\<newline>\<newline>Less pain'' 500])"
proof -
  have before: "process_reviews (feed_lib True) skipping_world sample_files [] [] = (Inr [], [])"
    by simp
  have prompt: "summarize_prompt sample_files = Some ''Summarise: {plain_language_summary}''"
    by (simp add: sample_files_def)
  have nonempty: "''Exercise helps.\<newline>\<newline>Less pain'' \<noteq> []" by simp
  have flag: "map_of [(PStr ''skip'', PBool True), (PStr ''reason'', PStr ''protocol'')] (PStr ''skip'')
      = Some (PBool True)" by simp
  have tr: "truthy (PBool True)" by simp
  from skip_propagation[OF before sample_fetch nonempty prompt sample_skip_reply sample_skip_span
      sample_skip_decoded flag tr, of "[]"]
  show ?thesis by (simp add: sample_skip_prompt)
qed

subsection \<open>The per-run cap\<close>




















subsection \<open>Idempotency of the acquisition flow\<close>


































end
